theory Spec2Isabelle
  imports Main "HOL-Library.Word" "HOL-Library.AList"
begin

unbundle bit_operations_syntax

section \<open>JavaScript values and JSON\<close>

text \<open>
  The values a process document can hold. A number is an IEEE 754 double, given by its
  64 bits: sign, eleven bits of exponent, 52 bits of fraction. A \<open>Date\<close> is given by what
  its \<^verbatim>\<open>toJSON\<close> method returns, the ISO string of the date or \<^verbatim>\<open>null\<close> for an invalid
  date; functions and symbols are opaque. Objects are maps from property names to values,
  so equality of \<open>jsval\<close> is deep equality that ignores the order of properties. A
  \<open>BigInt\<close> and an object that contains itself, on which \<^verbatim>\<open>JSON.stringify\<close> throws, are
  not values of this type.
\<close>

datatype jsval =
    VUndefined
  | VNull
  | VBool bool
  | VNum "64 word"
  | VStr string
  | VDate "string option"
  | VFunction nat
  | VSymbol nat
  | VArr "jsval list"
  | VObj "string \<Rightarrow> jsval option"

text \<open>
  \<^verbatim>\<open>Number.isFinite\<close>: the exponent bits are not all set, which they are for \<^verbatim>\<open>NaN\<close>,
  \<^verbatim>\<open>Infinity\<close> and \<^verbatim>\<open>-Infinity\<close>. The number \<^verbatim>\<open>-0\<close> has the sign bit alone.
\<close>

definition Number_isFinite :: "64 word \<Rightarrow> bool" where
  "Number_isFinite x = (x AND 0x7FF0000000000000 \<noteq> 0x7FF0000000000000)"

definition negative_zero :: "64 word" where
  "negative_zero = 0x8000000000000000"

text \<open>
  A JSON text, identified with its syntax tree: white space and the order of members
  cannot be observed through \<^verbatim>\<open>JSON.parse\<close>, and a number literal is identified with
  the double that \<^verbatim>\<open>JSON.parse\<close> reads it as, so that a literal with more digits than a
  double holds stands for the double it is rounded to.
\<close>

datatype json =
    JNull
  | JBool bool
  | JNum "64 word"
  | JStr string
  | JArr "json list"
  | JObj "string \<Rightarrow> json option"

text \<open>
  \<^verbatim>\<open>JSON.stringify\<close>: \<open>None\<close> is the result \<^verbatim>\<open>undefined\<close>. A number that is not finite
  is written as \<^verbatim>\<open>null\<close>, \<^verbatim>\<open>-0\<close> is written as \<^verbatim>\<open>0\<close>, and every other number as a
  literal that reads back as the same double. A \<open>Date\<close> is written as the string its
  \<^verbatim>\<open>toJSON\<close> returns. A property whose value is \<^verbatim>\<open>undefined\<close>, a function or a symbol
  is left out of an object, and such a value in an array is written as \<^verbatim>\<open>null\<close>.
\<close>

primrec stringify :: "jsval \<Rightarrow> json option" where
  "stringify VUndefined = None"
| "stringify VNull = Some JNull"
| "stringify (VBool b) = Some (JBool b)"
| "stringify (VNum x) =
     Some (if \<not> Number_isFinite x then JNull
           else if x = negative_zero then JNum 0
           else JNum x)"
| "stringify (VStr s) = Some (JStr s)"
| "stringify (VDate d) = Some (case d of None \<Rightarrow> JNull | Some s \<Rightarrow> JStr s)"
| "stringify (VFunction f) = None"
| "stringify (VSymbol y) = None"
| "stringify (VArr xs) = Some (JArr (map (case_option JNull id) (map stringify xs)))"
| "stringify (VObj m) =
     Some (JObj (\<lambda>k. case map_option stringify (m k) of None \<Rightarrow> None | Some j \<Rightarrow> j))"

text \<open>\<^verbatim>\<open>JSON.parse\<close> of a JSON text.\<close>

primrec parse :: "json \<Rightarrow> jsval" where
  "parse JNull = VNull"
| "parse (JBool b) = VBool b"
| "parse (JNum x) = VNum x"
| "parse (JStr s) = VStr s"
| "parse (JArr xs) = VArr (map parse xs)"
| "parse (JObj m) = VObj (\<lambda>k. map_option parse (m k))"


text \<open>
  The values made only of \<^verbatim>\<open>null\<close>, booleans, strings, finite numbers other than
  \<^verbatim>\<open>-0\<close>, and arrays and objects of such values.
\<close>

primrec json_safe :: "jsval \<Rightarrow> bool" where
  "json_safe VUndefined = False"
| "json_safe VNull = True"
| "json_safe (VBool b) = True"
| "json_safe (VNum x) = (Number_isFinite x \<and> x \<noteq> negative_zero)"
| "json_safe (VStr s) = True"
| "json_safe (VDate d) = False"
| "json_safe (VFunction f) = False"
| "json_safe (VSymbol y) = False"
| "json_safe (VArr xs) = list_all id (map json_safe xs)"
| "json_safe (VObj m) = (\<forall>k. pred_option id (map_option json_safe (m k)))"

section \<open>Process documents\<close>

text \<open>
  A process document: the property \<^verbatim>\<open>id\<close>, a string when present (the adapters document
  it as \<^verbatim>\<open>{String} id\<close> and the table declares it \<^verbatim>\<open>VARCHAR(50)\<close>), and every other
  property. A binding of \<open>''id''\<close> in \<open>props\<close> is shadowed by \<open>doc_id\<close>.
\<close>

record document =
  doc_id :: "string option"
  props :: "string \<Rightarrow> jsval option"

definition members :: "document \<Rightarrow> string \<Rightarrow> jsval option" where
  "members d = (props d)(''id'' := map_option VStr (doc_id d))"


text \<open>\<^verbatim>\<open>JSON.stringify(doc)\<close> for a document object.\<close>

definition stringify_doc :: "document \<Rightarrow> json" where
  "stringify_doc d =
     JObj (\<lambda>k. case map_option stringify (members d k) of None \<Rightarrow> None | Some j \<Rightarrow> j)"


text \<open>Truthiness of \<^verbatim>\<open>doc.id\<close>: the property is present and not the empty string.\<close>

definition has_id :: "document \<Rightarrow> bool" where
  "has_id d = (case doc_id d of None \<Rightarrow> False | Some s \<Rightarrow> s \<noteq> [])"

section \<open>Identifiers from the uuid package\<close>

text \<open>
  \<^verbatim>\<open>uuidv4()\<close> draws sixteen random bytes, fixes the version and variant bits and prints
  the bytes in lower-case hexadecimal with four dashes. The bytes drawn are an input of
  the model.
\<close>

definition hex_digit :: "nat \<Rightarrow> char" where
  "hex_digit n = ''0123456789abcdef'' ! (n mod 16)"

definition byteToHex :: "8 word \<Rightarrow> string" where
  "byteToHex b = [hex_digit (unat b div 16), hex_digit (unat b mod 16)]"

definition unsafeStringify :: "(nat \<Rightarrow> 8 word) \<Rightarrow> string" where
  "unsafeStringify arr =
     concat (map (byteToHex \<circ> arr) [0, 1, 2, 3]) @ ''-'' @
     concat (map (byteToHex \<circ> arr) [4, 5]) @ ''-'' @
     concat (map (byteToHex \<circ> arr) [6, 7]) @ ''-'' @
     concat (map (byteToHex \<circ> arr) [8, 9]) @ ''-'' @
     concat (map (byteToHex \<circ> arr) [10, 11, 12, 13, 14, 15])"

definition uuidv4 :: "(nat \<Rightarrow> 8 word) \<Rightarrow> string" where
  "uuidv4 rnds = unsafeStringify
     (rnds(6 := (rnds 6 AND 0x0f) OR 0x40, 8 := (rnds 8 AND 0x3f) OR 0x80))"

text \<open>\<^verbatim>\<open>doc.id || uuidv4()\<close>\<close>

definition id_or_uuid :: "(nat \<Rightarrow> 8 word) \<Rightarrow> document \<Rightarrow> string" where
  "id_or_uuid rnds d =
     (case doc_id d of
        None \<Rightarrow> uuidv4 rnds
      | Some s \<Rightarrow> if s \<noteq> [] then s else uuidv4 rnds)"

section \<open>Errors, stored records and completion callbacks\<close>

text \<open>
  \<open>Error\<close> is \<^verbatim>\<open>new Error(message)\<close>; \<open>TypeError\<close> and \<open>SyntaxError\<close> are raised by the
  language; \<open>StoreError\<close> is an error raised or reported by a backend client.
\<close>

datatype error =
    Error string
  | TypeError string
  | SyntaxError string
  | StoreError string

definition ValidationError :: error where
  "ValidationError = Error ''Document must have an id to be updated.''"

definition ConfigurationError :: error where
  "ConfigurationError = Error ''Persistency options must contain an uri property.''"

text \<open>A row of \<^verbatim>\<open>process_instances\<close> as the client library hands it to JavaScript.\<close>

record stored_record =
  rec_id :: string
  rec_doc :: jsval
  rec_created_at :: nat
  rec_updated_at :: nat

text \<open>
  The second argument of a completion callback: \<open>Omitted\<close> when it is not passed or is
  \<^verbatim>\<open>undefined\<close>, \<open>Doc\<close> when it is the caller's own document object.
\<close>

datatype result =
    Omitted
  | NullResult
  | Doc document
  | Parsed jsval
  | ParsedList "jsval list"
  | Row stored_record
  | Rows "stored_record list"

text \<open>
  One invocation \<^verbatim>\<open>callback(err, result)\<close>: the first component is \<open>None\<close> for
  \<^verbatim>\<open>null\<close>. A callback either returns (\<open>None\<close>) or throws.
\<close>

type_synonym cb_args = "error option \<times> result"
type_synonym callback = "cb_args \<Rightarrow> error option"

text \<open>
  What one call of an adapter method leaves behind: the invocations of the callback in
  order, whether the promise of the \<^verbatim>\<open>async\<close> method is rejected, and the backend.
\<close>

record 'srv outcome =
  calls :: "cb_args list"
  rejection :: "error option"
  backend :: 'srv

text \<open>
  Every adapter method has the shape
  \<^verbatim>\<open>try { ...; callback(null, r) } catch (err) { callback(err) }\<close>.
  The argument is what the body does before its callback: throw (\<open>Inl\<close>) or reach
  \<^verbatim>\<open>callback(null, r)\<close>. The call in the \<^verbatim>\<open>try\<close> block is itself guarded by the
  \<^verbatim>\<open>catch\<close>; a throw from the call in the handler rejects the promise.
\<close>

definition settle :: "callback \<Rightarrow> error + result \<Rightarrow> cb_args list \<times> error option" where
  "settle cb body =
     (case body of
        Inl err \<Rightarrow> ([(Some err, Omitted)], cb (Some err, Omitted))
      | Inr r \<Rightarrow>
          (case cb (None, r) of
             None \<Rightarrow> ([(None, r)], None)
           | Some err \<Rightarrow> ([(None, r), (Some err, Omitted)], cb (Some err, Omitted))))"

definition finish :: "callback \<Rightarrow> (error + result) \<times> 'srv \<Rightarrow> 'srv outcome" where
  "finish cb run =
     \<lparr>calls = fst (settle cb (fst run)), rejection = snd (settle cb (fst run)),
      backend = snd run\<rparr>"

text \<open>The first invocation of the callback.\<close>

definition first_call :: "'srv outcome \<Rightarrow> cb_args option" where
  "first_call out = (case calls out of [] \<Rightarrow> None | c # _ \<Rightarrow> Some c)"

text \<open>
  The callback was invoked exactly once, with an error or with a result but not with
  both, and the promise was not rejected.
\<close>

definition completes_once :: "'srv outcome \<Rightarrow> bool" where
  "completes_once out =
     (case calls out of
        [(err, r)] \<Rightarrow> (err = None \<or> r = Omitted) \<and> rejection out = None
      | _ \<Rightarrow> False)"

section \<open>The key-value backend\<close>

text \<open>
  A string held by the Redis server: the JSON text written by an adapter, or any other
  string, which \<^verbatim>\<open>JSON.parse\<close> rejects.
\<close>

datatype rstring = JsonText json | OtherText string

datatype redis_command =
    SET string rstring
  | GET string
  | DEL string
  | KEYS string
  | MGET "string list"

text \<open>
  The server behind the client created in the constructor: its entries, the commands
  the adapter has issued, and the error, if any, with which the client rejects every
  command, as it does for a server that answers with an error or for a closed connection
  without offline queue. A command that the client only queues while it reconnects does
  not return, and is not a case of this model.
\<close>

record redis_server =
  entries :: "(string \<times> rstring) list"
  commands :: "redis_command list"
  redis_fault :: "error option"

definition setAsync ::
  "string \<Rightarrow> rstring \<Rightarrow> redis_server \<Rightarrow> (error + unit) \<times> redis_server" where
  "setAsync key v srv =
     (let srv1 = srv\<lparr>commands := commands srv @ [SET key v]\<rparr>
      in case redis_fault srv of
           Some err \<Rightarrow> (Inl err, srv1)
         | None \<Rightarrow> (Inr (), srv1\<lparr>entries := AList.update key v (entries srv)\<rparr>))"

definition getAsync ::
  "string \<Rightarrow> redis_server \<Rightarrow> (error + rstring option) \<times> redis_server" where
  "getAsync key srv =
     (let srv1 = srv\<lparr>commands := commands srv @ [GET key]\<rparr>
      in case redis_fault srv of
           Some err \<Rightarrow> (Inl err, srv1)
         | None \<Rightarrow> (Inr (map_of (entries srv) key), srv1))"

definition delAsync :: "string \<Rightarrow> redis_server \<Rightarrow> (error + unit) \<times> redis_server" where
  "delAsync key srv =
     (let srv1 = srv\<lparr>commands := commands srv @ [DEL key]\<rparr>
      in case redis_fault srv of
           Some err \<Rightarrow> (Inl err, srv1)
         | None \<Rightarrow> (Inr (), srv1\<lparr>entries := AList.delete key (entries srv)\<rparr>))"

text \<open>\<^verbatim>\<open>KEYS p*\<close>: the argument is the part of the pattern before the star.\<close>

definition keysAsync ::
  "string \<Rightarrow> redis_server \<Rightarrow> (error + string list) \<times> redis_server" where
  "keysAsync p srv =
     (let srv1 = srv\<lparr>commands := commands srv @ [KEYS p]\<rparr>
      in case redis_fault srv of
           Some err \<Rightarrow> (Inl err, srv1)
         | None \<Rightarrow>
             (Inr (filter (\<lambda>k. take (length p) k = p) (map fst (entries srv))), srv1))"

definition mgetAsync ::
  "string list \<Rightarrow> redis_server \<Rightarrow> (error + rstring option list) \<times> redis_server" where
  "mgetAsync keys srv =
     (let srv1 = srv\<lparr>commands := commands srv @ [MGET keys]\<rparr>
      in case redis_fault srv of
           Some err \<Rightarrow> (Inl err, srv1)
         | None \<Rightarrow> (Inr (map (map_of (entries srv)) keys), srv1))"

text \<open>\<^verbatim>\<open>JSON.parse(data)\<close> on a reply; \<^verbatim>\<open>JSON.parse(null)\<close> is \<^verbatim>\<open>null\<close>.\<close>

definition JSON_parse :: "rstring option \<Rightarrow> error + jsval" where
  "JSON_parse data =
     (case data of
        None \<Rightarrow> Inr VNull
      | Some (JsonText j) \<Rightarrow> Inr (parse j)
      | Some (OtherText s) \<Rightarrow> Inl (SyntaxError s))"

text \<open>\<^verbatim>\<open>docs.map(doc => JSON.parse(doc))\<close>: the first throw ends the loop.\<close>

fun parse_docs :: "rstring option list \<Rightarrow> error + jsval list" where
  "parse_docs [] = Inr []"
| "parse_docs (d # ds) =
     (case JSON_parse d of
        Inl err \<Rightarrow> Inl err
      | Inr v \<Rightarrow> (case parse_docs ds of Inl err \<Rightarrow> Inl err | Inr vs \<Rightarrow> Inr (v # vs)))"

subsection \<open>RedisPersistency\<close>

text \<open>
  \<open>save\<close> returns, beside the outcome, the caller's document object as the call
  leaves it: \<^verbatim>\<open>doc.id = id\<close> writes into the object that was passed in.
\<close>

definition redis_save ::
  "(nat \<Rightarrow> 8 word) \<Rightarrow> document \<Rightarrow> callback \<Rightarrow> redis_server
     \<Rightarrow> document \<times> redis_server outcome" where
  "redis_save rnds doc cb srv =
     (let ident = id_or_uuid rnds doc;
          doc1 = doc\<lparr>doc_id := Some ident\<rparr>;
          key = ''process_instance:'' @ ident
      in (doc1,
          finish cb
            (case setAsync key (JsonText (stringify_doc doc1)) srv of
               (Inl err, srv1) \<Rightarrow> (Inl err, srv1)
             | (Inr _, srv1) \<Rightarrow> (Inr (Doc doc1), srv1))))"

definition redis_get :: "string \<Rightarrow> callback \<Rightarrow> redis_server \<Rightarrow> redis_server outcome" where
  "redis_get ident cb srv =
     (let key = ''process_instance:'' @ ident
      in finish cb
           (case getAsync key srv of
              (Inl err, srv1) \<Rightarrow> (Inl err, srv1)
            | (Inr data, srv1) \<Rightarrow>
                (if data = None \<or> data = Some (OtherText []) then Inr NullResult
                 else (case JSON_parse data of
                         Inl err \<Rightarrow> Inl err
                       | Inr v \<Rightarrow> Inr (Parsed v)),
                 srv1)))"

definition redis_update :: "document \<Rightarrow> callback \<Rightarrow> redis_server \<Rightarrow> redis_server outcome" where
  "redis_update doc cb srv =
     finish cb
       (case doc_id doc of
          None \<Rightarrow> (Inl (Error ''Document must have an id to be updated.''), srv)
        | Some ident \<Rightarrow>
            if ident = [] then (Inl (Error ''Document must have an id to be updated.''), srv)
            else
              (let key = ''process_instance:'' @ ident
               in case setAsync key (JsonText (stringify_doc doc)) srv of
                    (Inl err, srv1) \<Rightarrow> (Inl err, srv1)
                  | (Inr _, srv1) \<Rightarrow> (Inr (Doc doc), srv1)))"

definition redis_remove :: "string \<Rightarrow> callback \<Rightarrow> redis_server \<Rightarrow> redis_server outcome" where
  "redis_remove ident cb srv =
     (let key = ''process_instance:'' @ ident
      in finish cb
           (case delAsync key srv of
              (Inl err, srv1) \<Rightarrow> (Inl err, srv1)
            | (Inr _, srv1) \<Rightarrow> (Inr Omitted, srv1)))"

definition redis_list :: "callback \<Rightarrow> redis_server \<Rightarrow> redis_server outcome" where
  "redis_list cb srv =
     finish cb
       (case keysAsync ''process_instance:'' srv of
          (Inl err, srv1) \<Rightarrow> (Inl err, srv1)
        | (Inr keys, srv1) \<Rightarrow>
            if length keys = 0 then (Inr (ParsedList []), srv1)
            else
              (case mgetAsync keys srv1 of
                 (Inl err, srv2) \<Rightarrow> (Inl err, srv2)
               | (Inr docs, srv2) \<Rightarrow>
                   (case parse_docs docs of
                      Inl err \<Rightarrow> Inl err
                    | Inr vs \<Rightarrow> Inr (ParsedList vs),
                    srv2)))"

section \<open>The table process\_instances\<close>

text \<open>
  The schema file: \<^verbatim>\<open>id VARCHAR(50) PRIMARY KEY\<close>, \<^verbatim>\<open>doc JSONB NOT NULL\<close>, and
  \<^verbatim>\<open>created_at\<close>, \<^verbatim>\<open>updated_at\<close> with \<^verbatim>\<open>DEFAULT NOW()\<close>.
\<close>

record row =
  row_id :: string
  row_doc :: json
  created_at :: nat
  updated_at :: nat

text \<open>The value a statement assigns to \<^verbatim>\<open>updated_at\<close>.\<close>

datatype timestamp = NOW | At nat

datatype query =
    INSERT string json
  | SELECT_BY_ID string
  | UPDATE json timestamp string
  | DELETE string
  | SELECT_ALL

text \<open>
  The database server: the rows of the table in retrieval order, its clock, the
  statements it has been sent, and the error with which every statement is rejected
  while the connection is down.
\<close>

record sql_server =
  rows :: "row list"
  now :: nat
  queries :: "query list"
  sql_fault :: "error option"

text \<open>The trigger function of the schema file, run \<^verbatim>\<open>BEFORE UPDATE\<close> for each row.\<close>

definition update_updated_at_column :: "sql_server \<Rightarrow> row \<Rightarrow> row" where
  "update_updated_at_column srv new = new\<lparr>updated_at := now srv\<rparr>"

text \<open>\<^verbatim>\<open>INSERT INTO process_instances (id, doc) VALUES ($1, $2) RETURNING *\<close>\<close>

definition sql_insert ::
  "string \<Rightarrow> json \<Rightarrow> sql_server \<Rightarrow> (error + row list) \<times> sql_server" where
  "sql_insert ident d srv =
     (let srv1 = srv\<lparr>queries := queries srv @ [INSERT ident d]\<rparr>
      in case sql_fault srv of
           Some err \<Rightarrow> (Inl err, srv1)
         | None \<Rightarrow>
             if 50 < length ident then
               (Inl (StoreError ''value too long for type character varying(50)''), srv1)
             else if ident \<in> row_id ` set (rows srv) then
               (Inl (StoreError ''duplicate key value violates unique constraint''), srv1)
             else
               (let r = \<lparr>row_id = ident, row_doc = d,
                         created_at = now srv, updated_at = now srv\<rparr>
                in (Inr [r], srv1\<lparr>rows := rows srv @ [r]\<rparr>)))"

text \<open>\<^verbatim>\<open>SELECT * FROM process_instances WHERE id = $1\<close>\<close>

definition sql_select ::
  "string \<Rightarrow> sql_server \<Rightarrow> (error + row list) \<times> sql_server" where
  "sql_select ident srv =
     (let srv1 = srv\<lparr>queries := queries srv @ [SELECT_BY_ID ident]\<rparr>
      in case sql_fault srv of
           Some err \<Rightarrow> (Inl err, srv1)
         | None \<Rightarrow> (Inr (filter (\<lambda>r. row_id r = ident) (rows srv)), srv1))"

text \<open>
  \<^verbatim>\<open>UPDATE process_instances SET doc = $1, updated_at = ... WHERE id = $2 RETURNING *\<close>:
  a statement that matches no row changes nothing and returns no row.
\<close>

definition sql_update ::
  "json \<Rightarrow> timestamp \<Rightarrow> string \<Rightarrow> sql_server \<Rightarrow> (error + row list) \<times> sql_server" where
  "sql_update d ts ident srv =
     (let srv1 = srv\<lparr>queries := queries srv @ [UPDATE d ts ident]\<rparr>;
          t = (case ts of NOW \<Rightarrow> now srv | At n \<Rightarrow> n);
          rows1 = map (\<lambda>r. if row_id r = ident
                            then update_updated_at_column srv
                                   (r\<lparr>row_doc := d, updated_at := t\<rparr>)
                            else r) (rows srv)
      in case sql_fault srv of
           Some err \<Rightarrow> (Inl err, srv1)
         | None \<Rightarrow> (Inr (filter (\<lambda>r. row_id r = ident) rows1), srv1\<lparr>rows := rows1\<rparr>))"

text \<open>\<^verbatim>\<open>DELETE FROM process_instances WHERE id = $1\<close>\<close>

definition sql_delete ::
  "string \<Rightarrow> sql_server \<Rightarrow> (error + unit) \<times> sql_server" where
  "sql_delete ident srv =
     (let srv1 = srv\<lparr>queries := queries srv @ [DELETE ident]\<rparr>
      in case sql_fault srv of
           Some err \<Rightarrow> (Inl err, srv1)
         | None \<Rightarrow> (Inr (), srv1\<lparr>rows := filter (\<lambda>r. row_id r \<noteq> ident) (rows srv)\<rparr>))"

text \<open>\<^verbatim>\<open>SELECT * FROM process_instances\<close>\<close>

definition sql_select_all :: "sql_server \<Rightarrow> (error + row list) \<times> sql_server" where
  "sql_select_all srv =
     (let srv1 = srv\<lparr>queries := queries srv @ [SELECT_ALL]\<rparr>
      in case sql_fault srv of
           Some err \<Rightarrow> (Inl err, srv1)
         | None \<Rightarrow> (Inr (rows srv), srv1))"

text \<open>A result row in JavaScript: the client parses the \<^verbatim>\<open>JSONB\<close> column.\<close>

definition read_row :: "row \<Rightarrow> stored_record" where
  "read_row r =
     \<lparr>rec_id = row_id r, rec_doc = parse (row_doc r),
      rec_created_at = created_at r, rec_updated_at = updated_at r\<rparr>"

text \<open>\<^verbatim>\<open>rows[0]\<close>, which is \<^verbatim>\<open>undefined\<close> on an empty array.\<close>

definition first_row :: "row list \<Rightarrow> result" where
  "first_row rs = (case rs of [] \<Rightarrow> Omitted | r # _ \<Rightarrow> Row (read_row r))"

subsection \<open>PostgresPersistency\<close>

definition postgres_save ::
  "(nat \<Rightarrow> 8 word) \<Rightarrow> document \<Rightarrow> callback \<Rightarrow> sql_server
     \<Rightarrow> document \<times> sql_server outcome" where
  "postgres_save rnds doc cb srv =
     (let ident = id_or_uuid rnds doc;
          doc1 = doc\<lparr>doc_id := Some ident\<rparr>
      in (doc1,
          finish cb
            (case sql_insert ident (stringify_doc doc1) srv of
               (Inl err, srv1) \<Rightarrow> (Inl err, srv1)
             | (Inr rs, srv1) \<Rightarrow> (Inr (first_row rs), srv1))))"

definition postgres_get :: "string \<Rightarrow> callback \<Rightarrow> sql_server \<Rightarrow> sql_server outcome" where
  "postgres_get ident cb srv =
     finish cb
       (case sql_select ident srv of
          (Inl err, srv1) \<Rightarrow> (Inl err, srv1)
        | (Inr rs, srv1) \<Rightarrow> (Inr (first_row rs), srv1))"

definition postgres_update :: "document \<Rightarrow> callback \<Rightarrow> sql_server \<Rightarrow> sql_server outcome" where
  "postgres_update doc cb srv =
     finish cb
       (case doc_id doc of
          None \<Rightarrow> (Inl (Error ''Document must have an id to be updated.''), srv)
        | Some ident \<Rightarrow>
            if ident = [] then (Inl (Error ''Document must have an id to be updated.''), srv)
            else
              (case sql_update (stringify_doc doc) NOW ident srv of
                 (Inl err, srv1) \<Rightarrow> (Inl err, srv1)
               | (Inr rs, srv1) \<Rightarrow> (Inr (first_row rs), srv1)))"

definition postgres_remove :: "string \<Rightarrow> callback \<Rightarrow> sql_server \<Rightarrow> sql_server outcome" where
  "postgres_remove ident cb srv =
     finish cb
       (case sql_delete ident srv of
          (Inl err, srv1) \<Rightarrow> (Inl err, srv1)
        | (Inr _, srv1) \<Rightarrow> (Inr Omitted, srv1))"

definition postgres_list :: "callback \<Rightarrow> sql_server \<Rightarrow> sql_server outcome" where
  "postgres_list cb srv =
     finish cb
       (case sql_select_all srv of
          (Inl err, srv1) \<Rightarrow> (Inl err, srv1)
        | (Inr rs, srv1) \<Rightarrow> (Inr (Rows (map read_row rs)), srv1))"

subsection \<open>SupabasePersistency\<close>

text \<open>
  The Supabase client answers with \<^verbatim>\<open>{ data, error }\<close> and the adapter throws a
  non-null \<^verbatim>\<open>error\<close>, so an answer is again an error or the rows. The requests go to
  the same table. \<open>update\<close> reads the client's clock for \<^verbatim>\<open>new Date()\<close>.
\<close>

definition supabase_save ::
  "(nat \<Rightarrow> 8 word) \<Rightarrow> document \<Rightarrow> callback \<Rightarrow> sql_server
     \<Rightarrow> document \<times> sql_server outcome" where
  "supabase_save rnds doc cb srv =
     (let ident = id_or_uuid rnds doc;
          doc1 = doc\<lparr>doc_id := Some ident\<rparr>
      in (doc1,
          finish cb
            (case sql_insert ident (stringify_doc doc1) srv of
               (Inl error, srv1) \<Rightarrow> (Inl error, srv1)
             | (Inr data, srv1) \<Rightarrow> (Inr (first_row data), srv1))))"

definition supabase_get :: "string \<Rightarrow> callback \<Rightarrow> sql_server \<Rightarrow> sql_server outcome" where
  "supabase_get ident cb srv =
     finish cb
       (case sql_select ident srv of
          (Inl error, srv1) \<Rightarrow> (Inl error, srv1)
        | (Inr data, srv1) \<Rightarrow> (Inr (first_row data), srv1))"

definition supabase_update ::
  "nat \<Rightarrow> document \<Rightarrow> callback \<Rightarrow> sql_server \<Rightarrow> sql_server outcome" where
  "supabase_update date doc cb srv =
     finish cb
       (case doc_id doc of
          None \<Rightarrow> (Inl (Error ''Document must have an id to be updated.''), srv)
        | Some ident \<Rightarrow>
            if ident = [] then (Inl (Error ''Document must have an id to be updated.''), srv)
            else
              (case sql_update (stringify_doc doc) (At date) ident srv of
                 (Inl error, srv1) \<Rightarrow> (Inl error, srv1)
               | (Inr data, srv1) \<Rightarrow> (Inr (first_row data), srv1)))"

definition supabase_remove :: "string \<Rightarrow> callback \<Rightarrow> sql_server \<Rightarrow> sql_server outcome" where
  "supabase_remove ident cb srv =
     finish cb
       (case sql_delete ident srv of
          (Inl error, srv1) \<Rightarrow> (Inl error, srv1)
        | (Inr _, srv1) \<Rightarrow> (Inr Omitted, srv1))"

definition supabase_list :: "callback \<Rightarrow> sql_server \<Rightarrow> sql_server outcome" where
  "supabase_list cb srv =
     finish cb
       (case sql_select_all srv of
          (Inl error, srv1) \<Rightarrow> (Inl error, srv1)
        | (Inr data, srv1) \<Rightarrow> (Inr (Rows (map read_row data)), srv1))"

section \<open>The facade\<close>

text \<open>
  An adapter instance as the facade sees it: its methods by name. A method takes its
  arguments and the world it acts on, and returns a value (\<open>None\<close> is \<^verbatim>\<open>undefined\<close>)
  or throws. The type \<open>'a\<close> of arguments is left open: it holds documents, names and
  callbacks alike.
\<close>

type_synonym ('a, 'w) js_method = "'a list \<Rightarrow> 'w \<Rightarrow> (error + 'a option) \<times> 'w"
type_synonym ('a, 'w) object = "string \<Rightarrow> ('a, 'w) js_method option"

text \<open>The options of the facade: the property \<^verbatim>\<open>uri\<close> and the backend's own settings.\<close>

record options =
  opt_uri :: "string option"
  settings :: "string \<Rightarrow> jsval option"

datatype ctor_arg = Uri string | Options options

type_synonym ('a, 'w) ctor = "ctor_arg list \<Rightarrow> 'w \<Rightarrow> (error + ('a, 'w) object) \<times> 'w"

text \<open>
  What \<^verbatim>\<open>require\<close> returns for a module: a class, when the module ends in
  \<^verbatim>\<open>module.exports = SomeClass\<close>, or an object with named properties, when it assigns
  to \<^verbatim>\<open>exports.Name\<close>. The classes of the three adapters declare no static member.
\<close>

datatype ('a, 'w) exports =
    ClassExport
  | ObjectExport "string \<Rightarrow> ('a, 'w) ctor option"

text \<open>\<^verbatim>\<open>require(module).name\<close>\<close>

definition property :: "('a, 'w) exports \<Rightarrow> string \<Rightarrow> ('a, 'w) ctor option" where
  "property m name = (case m of ClassExport \<Rightarrow> None | ObjectExport tbl \<Rightarrow> tbl name)"

text \<open>
  \<^verbatim>\<open>postgresql.js\<close>, \<^verbatim>\<open>supabase.js\<close> and \<^verbatim>\<open>redis.js\<close> end in
  \<^verbatim>\<open>module.exports = PostgresPersistency\<close> (and likewise for the other two).
\<close>

definition postgresql_js :: "('a, 'w) exports" where
  "postgresql_js = ClassExport"

definition supabase_js :: "('a, 'w) exports" where
  "supabase_js = ClassExport"

definition redis_js :: "('a, 'w) exports" where
  "redis_js = ClassExport"

text \<open>\<^verbatim>\<open>new C(args)\<close>, where \<open>C\<close> may be \<^verbatim>\<open>undefined\<close>.\<close>

definition new ::
  "string \<Rightarrow> ('a, 'w) ctor option \<Rightarrow> ctor_arg list \<Rightarrow> 'w \<Rightarrow> (error + ('a, 'w) object) \<times> 'w" where
  "new name c args w =
     (case c of
        None \<Rightarrow> (Inl (TypeError (name @ '' is not a constructor'')), w)
      | Some construct \<Rightarrow> construct args w)"

text \<open>\<^verbatim>\<open>uri.indexOf(p) === 0\<close>\<close>

definition indexOf_is_0 :: "string \<Rightarrow> string \<Rightarrow> bool" where
  "indexOf_is_0 uri p = (take (length p) uri = p)"

record ('a, 'w) facade =
  implementation :: "('a, 'w) object"

text \<open>
  The constructor. The modules \<^verbatim>\<open>file.js\<close> and \<^verbatim>\<open>mongodb.js\<close> are not among the
  sources, so what \<^verbatim>\<open>require\<close> returns for them is a parameter.
\<close>

definition Persistency ::
  "('a, 'w) exports \<Rightarrow> ('a, 'w) exports \<Rightarrow> options option \<Rightarrow> 'w
     \<Rightarrow> (error + ('a, 'w) facade) \<times> 'w" where
  "Persistency file_js mongodb_js opts w =
     (let FilePersistency = property file_js ''Persistency'';
          MongoDBPersistency = property mongodb_js ''Persistency'';
          PostgresPersistency = property postgresql_js ''Persistency'';
          SupabasePersistency = property supabase_js ''Persistency'';
          RedisPersistency = property redis_js ''Persistency''
      in case opts of
           None \<Rightarrow> (Inl (Error ''Persistency options must contain an uri property.''), w)
         | Some options \<Rightarrow>
             (case opt_uri options of
                None \<Rightarrow> (Inl (Error ''Persistency options must contain an uri property.''), w)
              | Some uri \<Rightarrow>
                  if uri = [] then
                    (Inl (Error ''Persistency options must contain an uri property.''), w)
                  else
                    (case (if indexOf_is_0 uri ''mongodb://'' then
                             new ''MongoDBPersistency'' MongoDBPersistency
                               [Uri uri, Options options] w
                           else if indexOf_is_0 uri ''postgres://'' then
                             new ''PostgresPersistency'' PostgresPersistency [Options options] w
                           else if indexOf_is_0 uri ''supabase://'' then
                             new ''SupabasePersistency'' SupabasePersistency [Options options] w
                           else if indexOf_is_0 uri ''redis://'' then
                             new ''RedisPersistency'' RedisPersistency [Options options] w
                           else
                             new ''FilePersistency'' FilePersistency [Uri uri] w) of
                       (Inl err, w1) \<Rightarrow> (Inl err, w1)
                     | (Inr impl, w1) \<Rightarrow> (Inr \<lparr>implementation = impl\<rparr>, w1))))"

text \<open>
  \<^verbatim>\<open>this.implementation.name(args);\<close> as a statement: a missing method is a
  \<open>TypeError\<close>, a throw of the method propagates, and the value it returns is dropped,
  since the facade's methods have no \<^verbatim>\<open>return\<close>.
\<close>

definition call_statement ::
  "('a, 'w) object \<Rightarrow> string \<Rightarrow> 'a list \<Rightarrow> 'w \<Rightarrow> (error + 'a option) \<times> 'w" where
  "call_statement obj name args w =
     (case obj name of
        None \<Rightarrow> (Inl (TypeError (''this.implementation.'' @ name @ '' is not a function'')), w)
      | Some m \<Rightarrow>
          (case m args w of
             (Inl err, w1) \<Rightarrow> (Inl err, w1)
           | (Inr _, w1) \<Rightarrow> (Inr None, w1)))"

definition persist ::
  "('a, 'w) facade \<Rightarrow> 'a \<Rightarrow> 'a \<Rightarrow> 'w \<Rightarrow> (error + 'a option) \<times> 'w" where
  "persist this persistentData done w =
     call_statement (implementation this) ''persist'' [persistentData, done] w"

definition load ::
  "('a, 'w) facade \<Rightarrow> 'a \<Rightarrow> 'a \<Rightarrow> 'a \<Rightarrow> 'w \<Rightarrow> (error + 'a option) \<times> 'w" where
  "load this processId processName done w =
     call_statement (implementation this) ''load'' [processId, processName, done] w"

definition loadAll ::
  "('a, 'w) facade \<Rightarrow> 'a \<Rightarrow> 'a \<Rightarrow> 'w \<Rightarrow> (error + 'a option) \<times> 'w" where
  "loadAll this processName done w =
     call_statement (implementation this) ''loadAll'' [processName, done] w"

definition close ::
  "('a, 'w) facade \<Rightarrow> 'a \<Rightarrow> 'w \<Rightarrow> (error + 'a option) \<times> 'w" where
  "close this done w =
     call_statement (implementation this) ''close'' [done] w"

section \<open>Sample inputs\<close>

text \<open>A callback that returns, and one that throws when it is handed a result.\<close>

definition quiet :: callback where
  "quiet a = None"

definition throws_on_result :: callback where
  "throws_on_result a =
     (case a of (None, r) \<Rightarrow> Some (Error ''assertion failed'') | (Some err, r) \<Rightarrow> None)"

definition no_entries :: redis_server where
  "no_entries = \<lparr>entries = [], commands = [], redis_fault = None\<rparr>"

definition no_rows :: sql_server where
  "no_rows = \<lparr>rows = [], now = 7, queries = [], sql_fault = None\<rparr>"

definition order_without_id :: document where
  "order_without_id = \<lparr>doc_id = None, props = [''name'' \<mapsto> VStr ''order-1'']\<rparr>"


definition order_a :: document where
  "order_a = \<lparr>doc_id = Some ''a'', props = [''name'' \<mapsto> VStr ''order-1'']\<rparr>"


definition zeros :: "nat \<Rightarrow> 8 word" where
  "zeros i = 0"

text \<open>
  An adapter with the four methods the facade calls: each appends its name and arguments
  to the world, a log, and returns the number of its arguments. A module that exports
  its constructor as \<^verbatim>\<open>exports.Persistency\<close>.
\<close>

definition logging_adapter :: "(nat, (string \<times> nat list) list) object" where
  "logging_adapter name =
     (if name \<in> set [''persist'', ''load'', ''loadAll'', ''close'']
      then Some (\<lambda>args w. (Inr (Some (length args)), w @ [(name, args)]))
      else None)"

definition logging_module :: "(nat, (string \<times> nat list) list) exports" where
  "logging_module = ObjectExport [''Persistency'' \<mapsto> (\<lambda>args w. (Inr logging_adapter, w))]"

definition file_options :: options where
  "file_options = \<lparr>opt_uri = Some ''./instances'', settings = Map.empty\<rparr>"

definition postgres_options :: options where
  "postgres_options = \<lparr>opt_uri = Some ''postgres://localhost/bpmn'', settings = Map.empty\<rparr>"

section \<open>JSON round trips\<close>




text \<open>
  A number is written and read back unchanged exactly when it is finite and not \<^verbatim>\<open>-0\<close>:
  one half is read back unchanged, \<^verbatim>\<open>NaN\<close> is read back as \<^verbatim>\<open>null\<close> and \<^verbatim>\<open>-0\<close> as
  \<^verbatim>\<open>0\<close>.
\<close>

lemma stringify_number:
  "stringify (VNum x) = Some (JNum x) \<longleftrightarrow> Number_isFinite x \<and> x \<noteq> negative_zero"
  by (auto simp: negative_zero_def)

lemma stringify_number_examples:
  "json_safe (VNum 0x3FE0000000000000)"
  "map_option parse (stringify (VNum 0x7FF8000000000000)) = Some VNull"
  "map_option parse (stringify (VNum negative_zero)) = Some (VNum 0)"
  "map_option parse (stringify (VDate (Some ''2024-01-01T00:00:00.000Z''))) =
     Some (VStr ''2024-01-01T00:00:00.000Z'')"
  by (simp_all add: Number_isFinite_def negative_zero_def)



section \<open>Identifiers\<close>

lemma length_uuidv4: "length (uuidv4 rnds) = 36"
  by (simp add: uuidv4_def unsafeStringify_def byteToHex_def)

lemma uuidv4_not_empty: "uuidv4 rnds \<noteq> []"
  using length_uuidv4[of rnds] by auto

lemma id_or_uuid_missing: "\<not> has_id d \<Longrightarrow> id_or_uuid rnds d = uuidv4 rnds"
  by (auto simp: has_id_def id_or_uuid_def split: option.splits)


lemma id_or_uuid_not_empty: "id_or_uuid rnds d \<noteq> []"
  by (auto simp: id_or_uuid_def uuidv4_not_empty split: option.splits)

section \<open>Completion callbacks\<close>

lemma calls_finish_Inl: "calls (finish cb (Inl err, srv)) = [(Some err, Omitted)]"
  by (simp add: finish_def settle_def)

lemma backend_finish: "backend (finish cb run) = snd run"
  by (simp add: finish_def)

lemma first_call_finish_Inl:
  "first_call (finish cb (Inl err, srv)) = Some (Some err, Omitted)"
  by (simp add: first_call_def finish_def settle_def)

lemma first_call_finish_Inr: "first_call (finish cb (Inr r, srv)) = Some (None, r)"
  by (simp add: first_call_def finish_def settle_def split: option.splits)

text \<open>
  With a callback that returns, every method of every adapter invokes it exactly once,
  with an error or with a result, and its promise is fulfilled.
\<close>

lemma completes_once_finish:
  assumes "\<And>a. cb a = None"
  shows "completes_once (finish cb run)"
  by (cases "fst run") (simp_all add: completes_once_def finish_def settle_def assms)

lemma callback_once_when_it_returns:
  assumes "\<And>a. cb a = None"
  shows "completes_once (snd (redis_save rnds doc cb rs))"
    and "completes_once (redis_get ident cb rs)"
    and "completes_once (redis_update doc cb rs)"
    and "completes_once (redis_remove ident cb rs)"
    and "completes_once (redis_list cb rs)"
    and "completes_once (snd (postgres_save rnds doc cb ps))"
    and "completes_once (postgres_get ident cb ps)"
    and "completes_once (postgres_update doc cb ps)"
    and "completes_once (postgres_remove ident cb ps)"
    and "completes_once (postgres_list cb ps)"
    and "completes_once (snd (supabase_save rnds doc cb ss))"
    and "completes_once (supabase_get ident cb ss)"
    and "completes_once (supabase_update date doc cb ss)"
    and "completes_once (supabase_remove ident cb ss)"
    and "completes_once (supabase_list cb ss)"
  by (simp_all add: redis_save_def redis_get_def redis_update_def redis_remove_def
      redis_list_def postgres_save_def postgres_get_def postgres_update_def
      postgres_remove_def postgres_list_def supabase_save_def supabase_get_def
      supabase_update_def supabase_remove_def supabase_list_def Let_def
      completes_once_finish[OF assms])

section \<open>The key-value adapter\<close>

lemma redis_save_doc:
  "fst (redis_save rnds doc cb srv) = doc\<lparr>doc_id := Some (id_or_uuid rnds doc)\<rparr>"
  by (simp add: redis_save_def Let_def)

lemma redis_save_commands:
  "commands (backend (snd (redis_save rnds doc cb srv))) =
     commands srv @ [SET (''process_instance:'' @ id_or_uuid rnds doc)
        (JsonText (stringify_doc (doc\<lparr>doc_id := Some (id_or_uuid rnds doc)\<rparr>)))]"
  by (simp add: redis_save_def Let_def setAsync_def backend_finish split: option.splits)


lemma redis_update_ok:
  assumes "redis_fault srv = None" and "doc_id doc = Some ident" and "ident \<noteq> []"
  shows "first_call (redis_update doc cb srv) = Some (None, Doc doc)"
    and "entries (backend (redis_update doc cb srv)) =
           AList.update (''process_instance:'' @ ident) (JsonText (stringify_doc doc))
             (entries srv)"
    and "redis_fault (backend (redis_update doc cb srv)) = None"
  using assms
  by (simp_all add: redis_update_def Let_def setAsync_def backend_finish first_call_finish_Inr)


lemma redis_get_missing:
  assumes "redis_fault srv = None"
    and "map_of (entries srv) (''process_instance:'' @ ident) = None"
  shows "first_call (redis_get ident cb srv) = Some (None, NullResult)"
  using assms
  by (simp add: redis_get_def Let_def getAsync_def first_call_finish_Inr)

lemma redis_remove_ok:
  assumes "redis_fault srv = None"
  shows "first_call (redis_remove ident cb srv) = Some (None, Omitted)"
    and "entries (backend (redis_remove ident cb srv)) =
           AList.delete (''process_instance:'' @ ident) (entries srv)"
    and "redis_fault (backend (redis_remove ident cb srv)) = None"
  using assms
  by (simp_all add: redis_remove_def Let_def delAsync_def backend_finish first_call_finish_Inr)





section \<open>The relational and the Supabase adapter\<close>

lemma supabase_save_eq: "supabase_save = postgres_save"
  by (intro ext) (simp add: supabase_save_def postgres_save_def)

lemma supabase_get_eq: "supabase_get = postgres_get"
  by (intro ext) (simp add: supabase_get_def postgres_get_def)

lemma supabase_remove_eq: "supabase_remove = postgres_remove"
  by (intro ext) (simp add: supabase_remove_def postgres_remove_def)

lemma postgres_save_doc:
  "fst (postgres_save rnds doc cb srv) = doc\<lparr>doc_id := Some (id_or_uuid rnds doc)\<rparr>"
  by (simp add: postgres_save_def Let_def)

lemma postgres_save_queries:
  "queries (backend (snd (postgres_save rnds doc cb srv))) =
     queries srv @ [INSERT (id_or_uuid rnds doc)
        (stringify_doc (doc\<lparr>doc_id := Some (id_or_uuid rnds doc)\<rparr>))]"
  by (simp add: postgres_save_def Let_def sql_insert_def backend_finish split: option.splits)



lemma postgres_get_missing:
  assumes "sql_fault srv = None" and "ident \<notin> row_id ` set (rows srv)"
  shows "first_call (postgres_get ident cb srv) = Some (None, Omitted)"
proof -
  have "filter (\<lambda>x. row_id x = ident) (rows srv) = []"
    using assms(2) by (auto simp: filter_empty_conv)
  with assms(1) show ?thesis
    by (simp add: postgres_get_def sql_select_def Let_def first_call_finish_Inr first_row_def)
qed

lemma sql_update_missing:
  assumes "sql_fault srv = None" and "ident \<notin> row_id ` set (rows srv)"
  shows "sql_update d ts ident srv =
           (Inr [], srv\<lparr>queries := queries srv @ [UPDATE d ts ident]\<rparr>)"
proof -
  have m: "map (\<lambda>r. if row_id r = ident
                 then update_updated_at_column srv (r\<lparr>row_doc := d, updated_at := t\<rparr>)
                 else r) (rows srv) = rows srv" for t
    using assms(2) by (intro map_idI) auto
  have f: "filter (\<lambda>x. row_id x = ident) (rows srv) = []"
    using assms(2) by (auto simp: filter_empty_conv)
  show ?thesis
    using assms(1) by (simp add: sql_update_def Let_def m f)
qed

lemma postgres_update_missing:
  assumes "sql_fault srv = None" and "doc_id doc = Some ident" and "ident \<noteq> []"
    and "ident \<notin> row_id ` set (rows srv)"
  shows "first_call (postgres_update doc cb srv) = Some (None, Omitted)"
    and "rows (backend (postgres_update doc cb srv)) = rows srv"
  using assms
  by (simp_all add: postgres_update_def sql_update_missing backend_finish
      first_call_finish_Inr first_row_def)

lemma supabase_update_missing:
  assumes "sql_fault srv = None" and "doc_id doc = Some ident" and "ident \<noteq> []"
    and "ident \<notin> row_id ` set (rows srv)"
  shows "first_call (supabase_update date doc cb srv) = Some (None, Omitted)"
    and "rows (backend (supabase_update date doc cb srv)) = rows srv"
  using assms
  by (simp_all add: supabase_update_def sql_update_missing backend_finish
      first_call_finish_Inr first_row_def)

lemma postgres_remove_ok:
  assumes "sql_fault srv = None"
  shows "first_call (postgres_remove ident cb srv) = Some (None, Omitted)"
    and "rows (backend (postgres_remove ident cb srv)) =
           filter (\<lambda>r. row_id r \<noteq> ident) (rows srv)"
    and "sql_fault (backend (postgres_remove ident cb srv)) = None"
  using assms
  by (simp_all add: postgres_remove_def sql_delete_def Let_def backend_finish
      first_call_finish_Inr)



section \<open>Construction of the facade\<close>

lemma Persistency_without_uri:
  assumes "opts = None \<or> (\<exists>options. opts = Some options
             \<and> (opt_uri options = None \<or> opt_uri options = Some []))"
  shows "Persistency file_js mongodb_js opts w = (Inl ConfigurationError, w)"
  using assms by (auto simp: Persistency_def ConfigurationError_def)

lemma Persistency_adapter_uri:
  assumes "opt_uri options = Some uri"
    and "\<not> indexOf_is_0 uri ''mongodb://''"
    and "indexOf_is_0 uri ''postgres://'' \<or> indexOf_is_0 uri ''supabase://''
         \<or> indexOf_is_0 uri ''redis://''"
  shows "\<exists>name. Persistency file_js mongodb_js (Some options) w =
           (Inl (TypeError (name @ '' is not a constructor'')), w)"
proof -
  have "uri \<noteq> []" using assms(3) by (auto simp: indexOf_is_0_def)
  then show ?thesis
    using assms
    by (auto simp: Persistency_def Let_def new_def property_def postgresql_js_def
        supabase_js_def redis_js_def)
qed

lemma Persistency_binds:
  assumes "Persistency file_js mongodb_js opts w0 = (Inr this, w1)"
  shows "\<exists>construct args. construct args w0 = (Inr (implementation this), w1)
           \<and> (property mongodb_js ''Persistency'' = Some construct
              \<or> property file_js ''Persistency'' = Some construct)"
proof -
  from assms obtain options uri where o: "opts = Some options" "opt_uri options = Some uri"
    "uri \<noteq> []"
    by (auto simp: Persistency_def Let_def split: option.splits if_splits)
  show ?thesis
  proof (cases "indexOf_is_0 uri ''mongodb://''")
    case True
    with assms o obtain c where "property mongodb_js ''Persistency'' = Some c"
      "c [Uri uri, Options options] w0 = (Inr (implementation this), w1)"
      by (auto simp: Persistency_def Let_def new_def
          split: option.splits prod.splits sum.splits)
    then show ?thesis by blast
  next
    case False
    with assms o obtain c where "property file_js ''Persistency'' = Some c"
      "c [Uri uri] w0 = (Inr (implementation this), w1)"
      by (auto simp: Persistency_def Let_def new_def property_def postgresql_js_def
          supabase_js_def redis_js_def
          split: option.splits prod.splits sum.splits if_splits)
    then show ?thesis by blast
  qed
qed

section \<open>The claims\<close>

subsection \<open>C1: the facade forwards its calls\<close>

text \<open>
  Claim C1 says that each operation of the facade returns the result of the adapter's
  operation unchanged. The methods of the facade have no \<^verbatim>\<open>return\<close>: here the adapter's
  \<open>persist\<close> returns 2 and the facade's \<open>persist\<close> returns \<^verbatim>\<open>undefined\<close>.
\<close>

theorem facade_return_value_counterexample:
  "Persistency logging_module logging_module (Some file_options) [] =
     (Inr \<lparr>implementation = logging_adapter\<rparr>, [])
   \<and> map_option (\<lambda>m. m [1, 2] []) (logging_adapter ''persist'') =
       Some (Inr (Some 2), [(''persist'', [1, 2])])
   \<and> persist \<lparr>implementation = logging_adapter\<rparr> 1 2 [] =
       (Inr None, [(''persist'', [1, 2])])"
  by (simp add: Persistency_def Let_def new_def property_def logging_module_def
      file_options_def indexOf_is_0_def logging_adapter_def persist_def call_statement_def)

text \<open>
  Claim C1, amended. A facade that has been constructed holds one adapter, the instance
  made by the constructor that \<^verbatim>\<open>mongodb.js\<close> or \<^verbatim>\<open>file.js\<close> exports. Each of
  \<open>persist\<close>, \<open>load\<close>, \<open>loadAll\<close> and \<open>close\<close> runs the adapter's method of the same name
  on the same arguments in the same order: it leaves the world as that method leaves it
  and throws what it throws. The value the method returns is dropped, and the facade
  returns \<^verbatim>\<open>undefined\<close>.
\<close>

theorem facade_forwards_calls:
  assumes "Persistency file_js mongodb_js opts w0 = (Inr this, w1)"
  shows "(\<exists>construct args. construct args w0 = (Inr (implementation this), w1)
            \<and> (property mongodb_js ''Persistency'' = Some construct
               \<or> property file_js ''Persistency'' = Some construct))
       \<and> (\<forall>m. implementation this ''persist'' = Some m \<longrightarrow>
            persist this persistentData cb w =
              (case m [persistentData, cb] w of
                 (Inl err, w') \<Rightarrow> (Inl err, w')
               | (Inr v, w') \<Rightarrow> (Inr None, w')))
       \<and> (\<forall>m. implementation this ''load'' = Some m \<longrightarrow>
            load this processId processName cb w =
              (case m [processId, processName, cb] w of
                 (Inl err, w') \<Rightarrow> (Inl err, w')
               | (Inr v, w') \<Rightarrow> (Inr None, w')))
       \<and> (\<forall>m. implementation this ''loadAll'' = Some m \<longrightarrow>
            loadAll this processName cb w =
              (case m [processName, cb] w of
                 (Inl err, w') \<Rightarrow> (Inl err, w')
               | (Inr v, w') \<Rightarrow> (Inr None, w')))
       \<and> (\<forall>m. implementation this ''close'' = Some m \<longrightarrow>
            close this cb w =
              (case m [cb] w of
                 (Inl err, w') \<Rightarrow> (Inl err, w')
               | (Inr v, w') \<Rightarrow> (Inr None, w')))"
proof -
  from Persistency_binds[OF assms]
  show ?thesis
    by (simp add: persist_def load_def loadAll_def close_def call_statement_def)
qed

theorem facade_forwards_calls_witness:
  "Persistency logging_module logging_module (Some file_options) [] =
     (Inr \<lparr>implementation = logging_adapter\<rparr>, [])
   \<and> persist \<lparr>implementation = logging_adapter\<rparr> 1 3 [] =
       (Inr None, [(''persist'', [1, 3])])
   \<and> load \<lparr>implementation = logging_adapter\<rparr> 1 2 3 [] =
       (Inr None, [(''load'', [1, 2, 3])])
   \<and> loadAll \<lparr>implementation = logging_adapter\<rparr> 2 3 [] =
       (Inr None, [(''loadAll'', [2, 3])])
   \<and> close \<lparr>implementation = logging_adapter\<rparr> 3 [] =
       (Inr None, [(''close'', [3])])"
proof -
  have c: "Persistency logging_module logging_module (Some file_options) [] =
     (Inr \<lparr>implementation = logging_adapter\<rparr>, [])"
    by (simp add: Persistency_def Let_def new_def property_def logging_module_def
        file_options_def indexOf_is_0_def)
  have m: "logging_adapter ''persist'' =
             Some (\<lambda>args w. (Inr (Some (length args)), w @ [(''persist'', args)]))"
    "logging_adapter ''load'' =
             Some (\<lambda>args w. (Inr (Some (length args)), w @ [(''load'', args)]))"
    "logging_adapter ''loadAll'' =
             Some (\<lambda>args w. (Inr (Some (length args)), w @ [(''loadAll'', args)]))"
    "logging_adapter ''close'' =
             Some (\<lambda>args w. (Inr (Some (length args)), w @ [(''close'', args)]))"
    by (simp_all add: logging_adapter_def)
  show ?thesis
    using c facade_forwards_calls[OF c, where persistentData = 1 and processId = 1
        and processName = 2 and cb = 3 and w = "[]"]
    by (simp add: m)
qed

subsection \<open>C2: update of an id that is not stored\<close>

text \<open>
  Claim C2 says that the relational and the Supabase adapter fail with a store error.
  On an empty table both invoke the callback once, with no error and no row.
\<close>

theorem postgres_update_of_unknown_id_counterexample:
  "calls (postgres_update order_a quiet no_rows) = [(None, Omitted)]
   \<and> calls (supabase_update 9 order_a quiet no_rows) = [(None, Omitted)]"
  by (simp add: postgres_update_def supabase_update_def order_a_def no_rows_def quiet_def
      sql_update_def first_row_def finish_def settle_def)

text \<open>
  Claim C2, amended. For a document whose id is present and is not the id of any row,
  and a backend that answers, \<open>update\<close> of the relational and of the Supabase adapter
  reports no error and no row, and leaves the rows as they are; \<open>update\<close> of the
  key-value adapter reports the document and stores its JSON text under the key of the
  id.
\<close>

theorem update_of_unknown_id:
  assumes "redis_fault rs = None" and "sql_fault ps = None" and "sql_fault ss = None"
    and "doc_id doc = Some ident" and "ident \<noteq> []"
    and "ident \<notin> row_id ` set (rows ps)" and "ident \<notin> row_id ` set (rows ss)"
  shows "first_call (postgres_update doc cb ps) = Some (None, Omitted)
       \<and> rows (backend (postgres_update doc cb ps)) = rows ps
       \<and> first_call (supabase_update date doc cb ss) = Some (None, Omitted)
       \<and> rows (backend (supabase_update date doc cb ss)) = rows ss
       \<and> first_call (redis_update doc cb rs) = Some (None, Doc doc)
       \<and> map_of (entries (backend (redis_update doc cb rs))) (''process_instance:'' @ ident)
           = Some (JsonText (stringify_doc doc))"
  using assms
  by (simp add: postgres_update_missing supabase_update_missing redis_update_ok update_conv')

theorem update_of_unknown_id_witness:
  "redis_fault no_entries = None \<and> sql_fault no_rows = None
   \<and> doc_id order_a = Some ''a'' \<and> ''a'' \<noteq> [] \<and> ''a'' \<notin> row_id ` set (rows no_rows)
   \<and> first_call (postgres_update order_a quiet no_rows) = Some (None, Omitted)
   \<and> rows (backend (postgres_update order_a quiet no_rows)) = rows no_rows
   \<and> first_call (supabase_update 9 order_a quiet no_rows) = Some (None, Omitted)
   \<and> rows (backend (supabase_update 9 order_a quiet no_rows)) = rows no_rows
   \<and> first_call (redis_update order_a quiet no_entries) = Some (None, Doc order_a)
   \<and> map_of (entries (backend (redis_update order_a quiet no_entries)))
        (''process_instance:'' @ ''a'') = Some (JsonText (stringify_doc order_a))"
  using update_of_unknown_id
    [where rs = no_entries and ps = no_rows and ss = no_rows and doc = order_a
       and ident = "''a''" and cb = quiet and date = 9]
  by (simp add: no_entries_def no_rows_def order_a_def)

subsection \<open>C3: save, then get\<close>




subsection \<open>C4: the id that save assigns or keeps\<close>



subsection \<open>C5: update without an id\<close>

text \<open>
  Claim C5. When \<^verbatim>\<open>doc.id\<close> is missing or empty, \<open>update\<close> of each of the three adapters
  hands the error ``Document must have an id to be updated.'' to the callback, once, and
  the backend is exactly as before: no entry or row has changed and no command or
  statement has been sent.
\<close>

theorem update_without_id_is_rejected:
  assumes "\<not> has_id doc"
  shows "calls (redis_update doc cb rs) = [(Some ValidationError, Omitted)]
       \<and> backend (redis_update doc cb rs) = rs
       \<and> calls (postgres_update doc cb ps) = [(Some ValidationError, Omitted)]
       \<and> backend (postgres_update doc cb ps) = ps
       \<and> calls (supabase_update date doc cb ss) = [(Some ValidationError, Omitted)]
       \<and> backend (supabase_update date doc cb ss) = ss"
  using assms
  by (auto simp: has_id_def redis_update_def postgres_update_def supabase_update_def
      ValidationError_def calls_finish_Inl backend_finish split: option.splits)

theorem update_without_id_is_rejected_witness:
  "\<not> has_id order_without_id
   \<and> calls (redis_update order_without_id quiet no_entries) = [(Some ValidationError, Omitted)]
   \<and> backend (redis_update order_without_id quiet no_entries) = no_entries
   \<and> calls (postgres_update order_without_id quiet no_rows) = [(Some ValidationError, Omitted)]
   \<and> backend (postgres_update order_without_id quiet no_rows) = no_rows
   \<and> calls (supabase_update 9 order_without_id quiet no_rows) = [(Some ValidationError, Omitted)]
   \<and> backend (supabase_update 9 order_without_id quiet no_rows) = no_rows"
  using update_without_id_is_rejected
    [of order_without_id quiet no_entries no_rows 9 no_rows]
  by (simp add: has_id_def order_without_id_def)

subsection \<open>C6: get of an id that is not stored\<close>

text \<open>
  Claim C6. When the backend answers, \<open>get\<close> of an id that is not stored, or that has
  just been removed, invokes the callback with no error: the key-value adapter passes
  \<^verbatim>\<open>null\<close>, the relational and the Supabase adapter pass \<^verbatim>\<open>undefined\<close>.
\<close>

theorem get_of_unknown_id_is_not_found:
  assumes "redis_fault rs = None" and "sql_fault ps = None" and "sql_fault ss = None"
  shows "(map_of (entries rs) (''process_instance:'' @ ident) = None \<longrightarrow>
            first_call (redis_get ident cb rs) = Some (None, NullResult))
       \<and> first_call (redis_get ident cb (backend (redis_remove ident cb' rs))) =
            Some (None, NullResult)
       \<and> (ident \<notin> row_id ` set (rows ps) \<longrightarrow>
            first_call (postgres_get ident cb ps) = Some (None, Omitted))
       \<and> first_call (postgres_get ident cb (backend (postgres_remove ident cb' ps))) =
            Some (None, Omitted)
       \<and> (ident \<notin> row_id ` set (rows ss) \<longrightarrow>
            first_call (supabase_get ident cb ss) = Some (None, Omitted))
       \<and> first_call (supabase_get ident cb (backend (supabase_remove ident cb' ss))) =
            Some (None, Omitted)"
proof -
  have r1: "map_of (entries rs) (''process_instance:'' @ ident) = None \<longrightarrow>
            first_call (redis_get ident cb rs) = Some (None, NullResult)"
    using assms(1) by (simp add: redis_get_missing)
  have "map_of (entries (backend (redis_remove ident cb' rs))) (''process_instance:'' @ ident)
          = None"
    using assms(1) by (simp add: redis_remove_ok delete_conv')
  then have r2: "first_call (redis_get ident cb (backend (redis_remove ident cb' rs))) =
            Some (None, NullResult)"
    using assms(1) by (intro redis_get_missing) (simp_all add: redis_remove_ok)
  have p: "(ident \<notin> row_id ` set (rows srv) \<longrightarrow>
            first_call (postgres_get ident cb srv) = Some (None, Omitted))
       \<and> first_call (postgres_get ident cb (backend (postgres_remove ident cb' srv))) =
            Some (None, Omitted)" if "sql_fault srv = None" for srv
  proof -
    have "ident \<notin> row_id ` set (rows (backend (postgres_remove ident cb' srv)))"
      using that by (auto simp: postgres_remove_ok)
    then show ?thesis
      using that by (simp add: postgres_get_missing postgres_remove_ok)
  qed
  show ?thesis
    using r1 r2 p[OF assms(2)] p[OF assms(3)]
    by (simp only: supabase_get_eq supabase_remove_eq) simp
qed

theorem get_of_unknown_id_is_not_found_witness:
  "redis_fault no_entries = None \<and> sql_fault no_rows = None
   \<and> map_of (entries no_entries) (''process_instance:'' @ ''a'') = None
   \<and> ''a'' \<notin> row_id ` set (rows no_rows)
   \<and> first_call (redis_get ''a'' quiet no_entries) = Some (None, NullResult)
   \<and> first_call (postgres_get ''a'' quiet no_rows) = Some (None, Omitted)
   \<and> first_call (supabase_get ''a'' quiet no_rows) = Some (None, Omitted)"
  using get_of_unknown_id_is_not_found
    [where rs = no_entries and ps = no_rows and ss = no_rows and ident = "''a''"
       and cb = quiet and cb' = quiet]
  by (simp add: no_entries_def no_rows_def)

subsection \<open>C7: construction with a uri\<close>

text \<open>
  Claim C7 says that construction does not fail when the options contain a uri. With
  the uri \<^verbatim>\<open>postgres://localhost/bpmn\<close> the constructor reads the property
  \<^verbatim>\<open>Persistency\<close> of a module that exports its class as \<^verbatim>\<open>module.exports\<close>, finds
  \<^verbatim>\<open>undefined\<close>, and \<^verbatim>\<open>new\<close> throws a \<open>TypeError\<close>, whatever \<^verbatim>\<open>file.js\<close> and
  \<^verbatim>\<open>mongodb.js\<close> export.
\<close>

theorem Persistency_postgres_uri_throws:
  "Persistency file_js mongodb_js (Some postgres_options) w =
     (Inl (TypeError ''PostgresPersistency is not a constructor''), w)"
  by (simp add: Persistency_def Let_def new_def property_def postgresql_js_def
      postgres_options_def indexOf_is_0_def)

subsection \<open>C8: one invocation of the callback\<close>

text \<open>
  Claim C8 says that the callback is invoked exactly once. The call
  \<^verbatim>\<open>callback(null, result)\<close> stands inside the \<^verbatim>\<open>try\<close> block, so a callback that throws
  when it is handed the result is invoked a second time, with the error it threw.
\<close>

theorem callback_invoked_twice:
  "calls (snd (redis_save zeros order_a throws_on_result no_entries)) =
     [(None, Doc order_a), (Some (Error ''assertion failed''), Omitted)]
   \<and> calls (snd (postgres_save zeros order_a throws_on_result no_rows)) =
     [(None, Row \<lparr>rec_id = ''a'', rec_doc = parse (stringify_doc order_a),
                  rec_created_at = 7, rec_updated_at = 7\<rparr>),
      (Some (Error ''assertion failed''), Omitted)]
   \<and> calls (snd (supabase_save zeros order_a throws_on_result no_rows)) =
     [(None, Row \<lparr>rec_id = ''a'', rec_doc = parse (stringify_doc order_a),
                  rec_created_at = 7, rec_updated_at = 7\<rparr>),
      (Some (Error ''assertion failed''), Omitted)]"
proof -
  have i: "id_or_uuid zeros order_a = ''a''"
    by (simp add: id_or_uuid_def order_a_def)
  have d: "order_a\<lparr>doc_id := Some ''a''\<rparr> = order_a"
    by (simp add: order_a_def)
  have t: "throws_on_result (None, r) = Some (Error ''assertion failed'')" for r
    by (simp add: throws_on_result_def)
  have 1: "calls (snd (redis_save zeros order_a throws_on_result no_entries)) =
     [(None, Doc order_a), (Some (Error ''assertion failed''), Omitted)]"
    by (simp add: redis_save_def Let_def i d setAsync_def no_entries_def
        finish_def settle_def t)
  have 2: "calls (snd (postgres_save zeros order_a throws_on_result no_rows)) =
     [(None, Row \<lparr>rec_id = ''a'', rec_doc = parse (stringify_doc order_a),
                  rec_created_at = 7, rec_updated_at = 7\<rparr>),
      (Some (Error ''assertion failed''), Omitted)]"
    by (simp add: postgres_save_def Let_def i d sql_insert_def no_rows_def first_row_def
        read_row_def finish_def settle_def t)
  from 1 2 show ?thesis by (simp add: supabase_save_eq)
qed

subsection \<open>C9: what the key-value backend stores\<close>




subsection \<open>C10: save writes the id into the caller's document\<close>

text \<open>
  Claim C10. For a document without an id, \<open>save\<close> of each of the three adapters leaves
  the caller's document with the generated identifier as its id, whatever the backend
  answers, and the command or statement it sends carries the document with that id.
\<close>

theorem save_writes_id_into_document:
  assumes "\<not> has_id doc"
  shows "fst (redis_save rnds doc cb rs) = doc\<lparr>doc_id := Some (uuidv4 rnds)\<rparr>
       \<and> commands (backend (snd (redis_save rnds doc cb rs))) =
           commands rs @ [SET (''process_instance:'' @ uuidv4 rnds)
             (JsonText (stringify_doc (doc\<lparr>doc_id := Some (uuidv4 rnds)\<rparr>)))]
       \<and> fst (postgres_save rnds doc cb ps) = doc\<lparr>doc_id := Some (uuidv4 rnds)\<rparr>
       \<and> queries (backend (snd (postgres_save rnds doc cb ps))) =
           queries ps @ [INSERT (uuidv4 rnds)
             (stringify_doc (doc\<lparr>doc_id := Some (uuidv4 rnds)\<rparr>))]
       \<and> fst (supabase_save rnds doc cb ss) = doc\<lparr>doc_id := Some (uuidv4 rnds)\<rparr>
       \<and> queries (backend (snd (supabase_save rnds doc cb ss))) =
           queries ss @ [INSERT (uuidv4 rnds)
             (stringify_doc (doc\<lparr>doc_id := Some (uuidv4 rnds)\<rparr>))]"
proof -
  have i: "id_or_uuid rnds doc = uuidv4 rnds"
    using assms by (rule id_or_uuid_missing)
  show ?thesis
    using redis_save_doc[of rnds doc cb rs] redis_save_commands[of rnds doc cb rs]
      postgres_save_doc[of rnds doc cb ps] postgres_save_queries[of rnds doc cb ps]
      postgres_save_doc[of rnds doc cb ss] postgres_save_queries[of rnds doc cb ss]
    by (simp only: i supabase_save_eq)
qed

theorem save_writes_id_into_document_witness:
  "\<not> has_id order_without_id
   \<and> fst (redis_save zeros order_without_id quiet no_entries) =
       order_without_id\<lparr>doc_id := Some (uuidv4 zeros)\<rparr>
   \<and> fst (postgres_save zeros order_without_id quiet no_rows) =
       order_without_id\<lparr>doc_id := Some (uuidv4 zeros)\<rparr>
   \<and> fst (supabase_save zeros order_without_id quiet no_rows) =
       order_without_id\<lparr>doc_id := Some (uuidv4 zeros)\<rparr>
   \<and> uuidv4 zeros = ''00000000-0000-4000-8000-000000000000''"
proof -
  have h: "\<not> has_id order_without_id"
    by (simp add: has_id_def order_without_id_def)
  have u: "uuidv4 zeros = ''00000000-0000-4000-8000-000000000000''"
    by (simp add: uuidv4_def unsafeStringify_def byteToHex_def hex_digit_def zeros_def)
  show ?thesis
    using h u save_writes_id_into_document
      [OF h, where rnds = zeros and cb = quiet and rs = no_entries and ps = no_rows
         and ss = no_rows]
    by simp
qed

end
